theory Spec2Isabelle
  imports Complex_Main
begin

section \<open>Inputs, loop state and output rows of the tokenomics simulator\<close>

text \<open>
  The model follows \<open>run_simulation\<close> of sim.py. The sidebar widgets that feed it are the
  fields of \<open>params\<close>: the number inputs and sliders built from integer literals hand over
  Python ints, the starting price (literal \<open>0.50\<close>) a Python float.

  Python floats are modelled by the real numbers: every arithmetic step is exact, and a
  division whose divisor is zero raises \<open>ZeroDivisionError\<close>, as it does for Python's
  ints and floats. Rounding, overflow to infinity and NaN are outside this model.
\<close>

record params =
  initial_aum :: int
  monthly_growth :: int
  initial_supply :: int
  fee_bps :: int
  burn_pct :: int
  initial_price :: real
  liquidity_depth :: int
  user_tokens :: int

text \<open>The local variables the loop carries from one month to the next.\<close>

record sim_state =
  total_aum :: real
  monthly_new_aum :: real
  current_supply :: real
  current_price :: real

text \<open>One dictionary appended to \<open>data\<close>; the fields are the column names of the table.\<close>

record period_row =
  Month :: int
  Total_AUM :: real
  New_AUM :: real
  Revenue :: real
  Token_Price :: real
  Supply :: real
  TTV :: real
  Tokens_Burned :: real
  Market_Depth :: real
  Portfolio_Value :: real

datatype error = ZeroDivisionError

section \<open>The body of the loop\<close>

definition fee_rate :: "params \<Rightarrow> real" where
  "fee_rate p = real_of_int (fee_bps p) / 10000"

definition CRITICAL_SUPPLY_THRESHOLD :: real where
  "CRITICAL_SUPPLY_THRESHOLD = 1000000"

definition revenue_usd :: "params \<Rightarrow> sim_state \<Rightarrow> real" where
  "revenue_usd p s = monthly_new_aum s * fee_rate p"

definition tokens_bought :: "params \<Rightarrow> sim_state \<Rightarrow> real" where
  "tokens_bought p s = revenue_usd p s / current_price s"

definition supply_factor :: "sim_state \<Rightarrow> real" where
  "supply_factor s = current_supply s / CRITICAL_SUPPLY_THRESHOLD"

text \<open>\<open>tokens_burned\<close> after the circuit breaker of lines 99 to 104.\<close>

definition tokens_burned :: "params \<Rightarrow> sim_state \<Rightarrow> real" where
  "tokens_burned p s =
     (let burned = tokens_bought p s * (real_of_int (burn_pct p) / 100)
      in if current_supply s < CRITICAL_SUPPLY_THRESHOLD
         then burned * supply_factor s * 0.01
         else burned)"

definition current_mcap :: "sim_state \<Rightarrow> real" where
  "current_mcap s = current_supply s * current_price s"

definition dynamic_depth :: "params \<Rightarrow> sim_state \<Rightarrow> real" where
  "dynamic_depth p s = real_of_int (liquidity_depth p) + current_mcap s * 0.01"

definition price_move_pct :: "params \<Rightarrow> sim_state \<Rightarrow> real" where
  "price_move_pct p s = revenue_usd p s / dynamic_depth p s"

text \<open>
  One pass through the loop body for month \<open>i\<close>. The two divisions of the body, by
  \<open>current_price\<close> (line 96) and by \<open>dynamic_depth\<close> (line 112), raise in that order.
  The row is built after all updates, so it holds the updated price, supply, total AUM
  and the updated \<open>monthly_new_aum\<close>.
\<close>

definition step :: "params \<Rightarrow> int \<Rightarrow> sim_state \<Rightarrow> error + (sim_state \<times> period_row)" where
  "step p i s =
     (if current_price s = 0 then Inl ZeroDivisionError
      else if dynamic_depth p s = 0 then Inl ZeroDivisionError
      else
        let total' = total_aum s + monthly_new_aum s;
            price' = current_price s * (1 + price_move_pct p s);
            supply' = max 0 (current_supply s - tokens_burned p s);
            new' = monthly_new_aum s * (1 + real_of_int (monthly_growth p) / 100)
        in Inr (\<lparr>total_aum = total', monthly_new_aum = new',
                  current_supply = supply', current_price = price'\<rparr>,
                \<lparr>Month = i, Total_AUM = total', New_AUM = new',
                  Revenue = revenue_usd p s, Token_Price = price', Supply = supply',
                  TTV = supply' * price', Tokens_Burned = tokens_burned p s,
                  Market_Depth = dynamic_depth p s,
                  Portfolio_Value = real_of_int (user_tokens p) * price'\<rparr>))"

section \<open>The loop and the run\<close>

definition init_state :: "params \<Rightarrow> sim_state" where
  "init_state p =
     \<lparr>total_aum = 0, monthly_new_aum = real_of_int (initial_aum p * 1000000),
      current_supply = real_of_int (initial_supply p), current_price = initial_price p\<rparr>"

text \<open>
  The \<open>for\<close> loop over the month numbers: the state after the last month together with the
  rows in the order they were appended. An exception in a month ends the run.
\<close>

fun sim_loop :: "params \<Rightarrow> int list \<Rightarrow> sim_state \<Rightarrow> error + (sim_state \<times> period_row list)" where
  "sim_loop p [] s = Inr (s, [])"
| "sim_loop p (i # is) s =
     (case step p i s of
        Inl e \<Rightarrow> Inl e
      | Inr (s', r) \<Rightarrow>
          (case sim_loop p is s' of
             Inl e \<Rightarrow> Inl e
           | Inr (sf, rs) \<Rightarrow> Inr (sf, r # rs)))"

definition months :: int where
  "months = 24"

text \<open>\<open>range(1, n + 1)\<close> is \<open>[1..n]\<close>; \<open>run_months n\<close> is the run over a horizon of \<open>n\<close> months.\<close>

definition run_months :: "int \<Rightarrow> params \<Rightarrow> error + period_row list" where
  "run_months n p =
     (case sim_loop p [1..n] (init_state p) of
        Inl e \<Rightarrow> Inl e
      | Inr (sf, rs) \<Rightarrow> Inr rs)"

definition run_simulation :: "params \<Rightarrow> error + period_row list" where
  "run_simulation p = run_months months p"

text \<open>The loop state at the end of month \<open>k\<close>, which is the state month \<open>k + 1\<close> starts from.\<close>

definition state_after :: "params \<Rightarrow> int \<Rightarrow> error + sim_state" where
  "state_after p k =
     (case sim_loop p [1..k] (init_state p) of
        Inl e \<Rightarrow> Inl e
      | Inr (sf, rs) \<Rightarrow> Inr sf)"

section \<open>Input constraints\<close>

text \<open>
  The constraints the specification puts on a parameter set (section 3): seed AUM not
  negative, supply, price and liquidity depth positive, fee between 0 and 10000 basis
  points, burn between 0 and 100 percent, holdings not negative. The growth rate carries
  no constraint there.
\<close>

definition valid_params :: "params \<Rightarrow> bool" where
  "valid_params p \<longleftrightarrow>
     0 \<le> initial_aum p \<and> 0 < initial_supply p \<and>
     0 \<le> fee_bps p \<and> fee_bps p \<le> 10000 \<and>
     0 \<le> burn_pct p \<and> burn_pct p \<le> 100 \<and>
     0 < initial_price p \<and> 0 < liquidity_depth p \<and> 0 \<le> user_tokens p"

text \<open>
  The values the widgets of sim.py can hand over. The sliders bound the growth rate to
  0..20 (line 51), the fee to 5..150 basis points (line 55) and the burn rate to 0..100
  (line 56). The integer number inputs (new AUM, supply, liquidity depth, holdings) are
  Streamlit number inputs, whose integer values stay within \<open>2^53 - 1\<close> in absolute value.
  The starting price is a float number input without bounds.
\<close>

definition widget_params :: "params \<Rightarrow> bool" where
  "widget_params p \<longleftrightarrow>
     0 \<le> monthly_growth p \<and> monthly_growth p \<le> 20 \<and>
     5 \<le> fee_bps p \<and> fee_bps p \<le> 150 \<and>
     0 \<le> burn_pct p \<and> burn_pct p \<le> 100 \<and>
     \<bar>initial_aum p\<bar> \<le> 9007199254740991 \<and>
     \<bar>initial_supply p\<bar> \<le> 9007199254740991 \<and>
     \<bar>liquidity_depth p\<bar> \<le> 9007199254740991 \<and>
     \<bar>user_tokens p\<bar> \<le> 9007199254740991"

section \<open>Auxiliary definitions for the statements\<close>

text \<open>The condition on a loop state under which a month neither raises nor leaves the condition.\<close>

definition state_ok :: "sim_state \<Rightarrow> bool" where
  "state_ok s \<longleftrightarrow> 0 < current_price s \<and> 0 \<le> current_supply s \<and> 0 \<le> monthly_new_aum s"

text \<open>
  The widget defaults of sim.py, which are the literal scenario of the specification; the
  holdings of the observer are left open.
\<close>

definition scenario_params :: "int \<Rightarrow> params" where
  "scenario_params u =
     \<lparr>initial_aum = 10, monthly_growth = 1, initial_supply = 100000000, fee_bps = 25,
      burn_pct = 50, initial_price = 0.5, liquidity_depth = 500000, user_tokens = u\<rparr>"

text \<open>The scenario with a supply below the critical threshold from the first month on.\<close>

definition low_supply_params :: params where
  "low_supply_params =
     \<lparr>initial_aum = 10, monthly_growth = 1, initial_supply = 500000, fee_bps = 25,
      burn_pct = 50, initial_price = 0.5, liquidity_depth = 500000, user_tokens = 1000000\<rparr>"

text \<open>A row with the portfolio column blanked, for comparing runs column by column.\<close>

definition drop_portfolio :: "period_row \<Rightarrow> period_row" where
  "drop_portfolio r = r\<lparr>Portfolio_Value := 0\<rparr>"

section \<open>Properties of one month\<close>

lemma step_Inr:
  assumes "current_price s \<noteq> 0" and "dynamic_depth p s \<noteq> 0"
  shows "step p i s =
     Inr (\<lparr>total_aum = total_aum s + monthly_new_aum s,
            monthly_new_aum = monthly_new_aum s * (1 + real_of_int (monthly_growth p) / 100),
            current_supply = max 0 (current_supply s - tokens_burned p s),
            current_price = current_price s * (1 + price_move_pct p s)\<rparr>,
          \<lparr>Month = i, Total_AUM = total_aum s + monthly_new_aum s,
            New_AUM = monthly_new_aum s * (1 + real_of_int (monthly_growth p) / 100),
            Revenue = revenue_usd p s,
            Token_Price = current_price s * (1 + price_move_pct p s),
            Supply = max 0 (current_supply s - tokens_burned p s),
            TTV = max 0 (current_supply s - tokens_burned p s) *
                  (current_price s * (1 + price_move_pct p s)),
            Tokens_Burned = tokens_burned p s,
            Market_Depth = dynamic_depth p s,
            Portfolio_Value = real_of_int (user_tokens p) *
                  (current_price s * (1 + price_move_pct p s))\<rparr>)"
  using assms by (simp add: step_def Let_def)

lemma step_Inr_D:
  assumes "step p i s = Inr (s', r)"
  shows "current_price s \<noteq> 0" and "dynamic_depth p s \<noteq> 0"
  using assms by (auto simp: step_def split: if_splits)

lemma revenue_nonneg:
  assumes "0 \<le> fee_bps p" and "0 \<le> monthly_new_aum s"
  shows "0 \<le> revenue_usd p s"
  using assms by (simp add: revenue_usd_def fee_rate_def)

lemma depth_pos:
  assumes "0 < liquidity_depth p" and "0 < current_price s" and "0 \<le> current_supply s"
  shows "0 < dynamic_depth p s"
proof -
  have "0 \<le> current_mcap s * 0.01"
    using assms by (simp add: current_mcap_def)
  moreover have "0 < real_of_int (liquidity_depth p)"
    using assms by simp
  ultimately show ?thesis
    unfolding dynamic_depth_def by linarith
qed

lemma burned_nonneg:
  assumes "0 \<le> revenue_usd p s" and "0 \<le> burn_pct p"
    and "0 < current_price s" and "0 \<le> current_supply s"
  shows "0 \<le> tokens_burned p s"
proof -
  have b: "0 \<le> tokens_bought p s * (real_of_int (burn_pct p) / 100)"
    using assms by (simp add: tokens_bought_def)
  have f: "0 \<le> supply_factor s"
    using assms by (simp add: supply_factor_def CRITICAL_SUPPLY_THRESHOLD_def)
  show ?thesis
    using b f by (simp add: tokens_burned_def Let_def)
qed

lemma step_ok:
  assumes v: "valid_params p" and g: "- 100 \<le> monthly_growth p" and ok: "state_ok s"
  shows "\<exists>s' r. step p i s = Inr (s', r) \<and> state_ok s' \<and>
           current_price s \<le> current_price s' \<and> current_supply s' \<le> current_supply s"
proof -
  have pr: "0 < current_price s" and su: "0 \<le> current_supply s" and na: "0 \<le> monthly_new_aum s"
    using ok by (simp_all add: state_ok_def)
  have rev: "0 \<le> revenue_usd p s"
    using v na by (intro revenue_nonneg) (simp_all add: valid_params_def)
  have dep: "0 < dynamic_depth p s"
    using v pr su by (intro depth_pos) (simp_all add: valid_params_def)
  have bur: "0 \<le> tokens_burned p s"
    using v rev pr su by (intro burned_nonneg) (simp_all add: valid_params_def)
  have mv: "0 \<le> price_move_pct p s"
    using rev dep by (simp add: price_move_pct_def)
  have gr: "0 \<le> 1 + real_of_int (monthly_growth p) / 100"
    using g by simp
  have p1: "current_price s \<le> current_price s * (1 + price_move_pct p s)"
    using pr mv by (simp add: algebra_simps)
  have n1: "0 \<le> monthly_new_aum s * (1 + real_of_int (monthly_growth p) / 100)"
    using na gr by (rule mult_nonneg_nonneg)
  have s1: "max 0 (current_supply s - tokens_burned p s) \<le> current_supply s"
    using su bur by simp
  show ?thesis
    using pr dep p1 n1 s1 by (simp add: step_Inr state_ok_def)
qed


lemma step_row:
  assumes "step p i s = Inr (s', r)"
  shows "Month r = i" and "Total_AUM r = total_aum s'" and "New_AUM r = monthly_new_aum s'"
    and "Revenue r = revenue_usd p s" and "Token_Price r = current_price s'"
    and "Supply r = current_supply s'" and "TTV r = current_supply s' * current_price s'"
    and "Tokens_Burned r = tokens_burned p s" and "Market_Depth r = dynamic_depth p s"
    and "Portfolio_Value r = real_of_int (user_tokens p) * current_price s'"
  using assms by (auto simp: step_def Let_def split: if_splits)

lemma step_state:
  assumes "step p i s = Inr (s', r)"
  shows "total_aum s' = total_aum s + monthly_new_aum s"
    and "monthly_new_aum s' = monthly_new_aum s * (1 + real_of_int (monthly_growth p) / 100)"
    and "current_supply s' = max 0 (current_supply s - tokens_burned p s)"
    and "current_price s' = current_price s * (1 + price_move_pct p s)"
  using assms by (auto simp: step_def Let_def split: if_splits)

section \<open>Properties of the loop\<close>

lemma sim_loop_Cons_Inr:
  assumes "sim_loop p (i # is) s = Inr (sf, rs)"
  obtains s' r rs' where "step p i s = Inr (s', r)"
    and "sim_loop p is s' = Inr (sf, rs')" and "rs = r # rs'"
  using assms by (auto split: sum.splits prod.splits)

lemma sim_loop_months:
  "sim_loop p is s = Inr (sf, rs) \<Longrightarrow> map Month rs = is"
proof (induction "is" arbitrary: s rs)
  case Nil
  then show ?case by simp
next
  case (Cons i "is")
  from Cons.prems obtain s' r rs' where st: "step p i s = Inr (s', r)"
    and lp: "sim_loop p is s' = Inr (sf, rs')" and rs: "rs = r # rs'"
    by (rule sim_loop_Cons_Inr)
  show ?case
    using Cons.IH [OF lp] step_row(1) [OF st] rs by simp
qed

lemma sim_loop_length:
  "sim_loop p is s = Inr (sf, rs) \<Longrightarrow> length rs = length is"
  using sim_loop_months [of p "is" s sf rs] by (metis length_map)

lemma sim_loop_total:
  assumes "valid_params p" and "- 100 \<le> monthly_growth p"
  shows "state_ok s \<Longrightarrow> \<exists>sf rs. sim_loop p is s = Inr (sf, rs) \<and> state_ok sf"
proof (induction "is" arbitrary: s)
  case Nil
  then show ?case by simp
next
  case (Cons i "is")
  from step_ok [OF assms Cons.prems, of i]
  obtain s' r where st: "step p i s = Inr (s', r)" and ok': "state_ok s'"
    by blast
  from Cons.IH [OF ok'] obtain sf rs where "sim_loop p is s' = Inr (sf, rs)" and "state_ok sf"
    by blast
  with st show ?case by simp
qed

lemma sim_loop_append:
  "sim_loop p (xs @ ys) s =
     (case sim_loop p xs s of
        Inl e \<Rightarrow> Inl e
      | Inr (s1, r1) \<Rightarrow>
          (case sim_loop p ys s1 of
             Inl e \<Rightarrow> Inl e
           | Inr (s2, r2) \<Rightarrow> Inr (s2, r1 @ r2)))"
  by (induction xs arbitrary: s) (auto split: sum.splits prod.splits)

text \<open>Cumulative AUM of the rows when the monthly inflow is positive and does not shrink.\<close>

lemma sim_loop_aum:
  assumes "0 \<le> monthly_growth p"
  shows "0 < monthly_new_aum s \<Longrightarrow> sim_loop p is s = Inr (sf, rs) \<Longrightarrow>
     (\<forall>r \<in> set rs. total_aum s < Total_AUM r) \<and>
     sorted_wrt (\<lambda>a b. Total_AUM a < Total_AUM b) rs"
proof (induction "is" arbitrary: s rs)
  case Nil
  then show ?case by simp
next
  case (Cons i "is")
  from Cons.prems(2) obtain s' r rs' where st: "step p i s = Inr (s', r)"
    and lp: "sim_loop p is s' = Inr (sf, rs')" and rs: "rs = r # rs'"
    by (rule sim_loop_Cons_Inr)
  have gr: "0 < 1 + real_of_int (monthly_growth p) / 100"
    using assms by (simp add: add_pos_nonneg)
  have na': "0 < monthly_new_aum s'"
    using step_state(2) [OF st] Cons.prems(1) gr by simp
  have ta': "total_aum s < total_aum s'"
    using step_state(1) [OF st] Cons.prems(1) by simp
  have row: "Total_AUM r = total_aum s'"
    using step_row [OF st] by simp
  from Cons.IH [OF na' lp]
  have ih: "\<forall>x \<in> set rs'. total_aum s' < Total_AUM x"
    and srt: "sorted_wrt (\<lambda>a b. Total_AUM a < Total_AUM b) rs'"
    by simp_all
  have tl_ok: "\<forall>x \<in> set rs'. total_aum s < Total_AUM x"
    using ih ta' by fastforce
  show ?case
    using row ta' ih tl_ok srt rs by simp
qed

lemma sim_loop_rows:
  "sim_loop p is s = Inr (sf, rs) \<Longrightarrow>
     \<forall>r \<in> set rs. TTV r = Supply r * Token_Price r \<and>
                   Portfolio_Value r = real_of_int (user_tokens p) * Token_Price r"
proof (induction "is" arbitrary: s rs)
  case Nil
  then show ?case by simp
next
  case (Cons i "is")
  from Cons.prems obtain s' r rs' where st: "step p i s = Inr (s', r)"
    and lp: "sim_loop p is s' = Inr (sf, rs')" and rs: "rs = r # rs'"
    by (rule sim_loop_Cons_Inr)
  show ?case
    using Cons.IH [OF lp] step_row [OF st] rs by simp
qed


lemma sim_loop_append_Inr:
  assumes "sim_loop p (xs @ ys) s = Inr (sf, rs)"
  obtains s1 r1 r2 where "sim_loop p xs s = Inr (s1, r1)"
    and "sim_loop p ys s1 = Inr (sf, r2)" and "rs = r1 @ r2"
  using assms unfolding sim_loop_append by (auto split: sum.splits prod.splits)

section \<open>Properties of a run\<close>

lemma run_months_Inr:
  assumes "run_months n p = Inr rs"
  obtains sf where "sim_loop p [1..n] (init_state p) = Inr (sf, rs)"
  using assms by (auto simp: run_months_def split: sum.splits prod.splits)

lemma init_state_ok: "valid_params p \<Longrightarrow> state_ok (init_state p)"
  by (simp add: valid_params_def state_ok_def init_state_def)

lemma run_months_total:
  assumes "valid_params p" and "- 100 \<le> monthly_growth p"
  shows "\<exists>rs. run_months n p = Inr rs"
proof -
  from sim_loop_total [OF assms init_state_ok [OF assms(1)], of "[1..n]"]
  obtain sf rs where "sim_loop p [1..n] (init_state p) = Inr (sf, rs)"
    by blast
  then show ?thesis by (simp add: run_months_def)
qed

lemma run_months_length:
  assumes "run_months n p = Inr rs"
  shows "length rs = nat n" and "map Month rs = [1..n]"
proof -
  from assms obtain sf where lp: "sim_loop p [1..n] (init_state p) = Inr (sf, rs)"
    by (rule run_months_Inr)
  show "map Month rs = [1..n]"
    using lp by (rule sim_loop_months)
  show "length rs = nat n"
    using sim_loop_length [OF lp] by simp
qed

text \<open>
  Row \<open>k\<close> of a run (counted from 0) is the row of month \<open>k + 1\<close>: the loop body run from
  the state at the end of month \<open>k\<close>.
\<close>

lemma run_months_period:
  assumes run: "run_months n p = Inr rs" and k: "k < length rs"
  shows "\<exists>s s'. state_after p (int k) = Inr s \<and>
           step p (int k + 1) s = Inr (s', rs ! k) \<and>
           state_after p (int k + 1) = Inr s'"
proof -
  from run obtain sf where lp: "sim_loop p [1..n] (init_state p) = Inr (sf, rs)"
    by (rule run_months_Inr)
  have kn: "int k + 1 \<le> n"
    using k run_months_length(1) [OF run] by simp
  have split: "[1..n] = [1..int k] @ (int k + 1) # [int k + 2..n]"
    using upto_split3 [of 1 "int k + 1" n] kn by (simp add: add.commute)
  from lp obtain s1 r1 r2 where l1: "sim_loop p [1..int k] (init_state p) = Inr (s1, r1)"
    and l2: "sim_loop p ((int k + 1) # [int k + 2..n]) s1 = Inr (sf, r2)"
    and rs: "rs = r1 @ r2"
    unfolding split by (rule sim_loop_append_Inr)
  from l2 obtain s' r r3 where st: "step p (int k + 1) s1 = Inr (s', r)" and r2: "r2 = r # r3"
    by (rule sim_loop_Cons_Inr)
  have len: "length r1 = k"
    using sim_loop_length [OF l1] by simp
  have row: "rs ! k = r"
    using rs r2 len by (simp add: nth_append)
  have split': "[1..int k + 1] = [1..int k] @ [int k + 1]"
    using upto_rec2 [of 1 "int k + 1"] by simp
  have l3: "sim_loop p [1..int k + 1] (init_state p) = Inr (s', r1 @ [r])"
    unfolding split' sim_loop_append using l1 st by simp
  have a: "state_after p (int k) = Inr s1"
    using l1 by (simp add: state_after_def)
  have b: "state_after p (int k + 1) = Inr s'"
    using l3 by (simp add: state_after_def)
  show ?thesis
    using a b st row by simp
qed

lemma state_after_0: "state_after p 0 = Inr (init_state p)"
  by (simp add: state_after_def)

lemma months_upto:
  "[1..24] = [1, 2, 3, 4, 5, 6, 7, 8, 9, 10, 11, 12, 13, 14, 15, 16, 17, 18, 19, 20, 21, 22, 23, 24 :: int]"
  by code_simp

lemmas body_defs = fee_rate_def revenue_usd_def tokens_bought_def supply_factor_def
  tokens_burned_def current_mcap_def dynamic_depth_def price_move_pct_def
  CRITICAL_SUPPLY_THRESHOLD_def

lemma run_first_row:
  assumes "run_months n p = Inr rs" and "0 < n"
  shows "\<exists>s'. step p 1 (init_state p) = Inr (s', rs ! 0) \<and> state_after p 1 = Inr s'"
proof -
  have "0 < length rs"
    using run_months_length(1) [OF assms(1)] assms(2) by simp
  from run_months_period [OF assms(1) this] show ?thesis
    by (simp add: state_after_0)
qed

section \<open>The literal scenario\<close>

lemma scenario_valid:
  "0 \<le> u \<Longrightarrow> valid_params (scenario_params u)" "- 100 \<le> monthly_growth (scenario_params u)"
  by (simp_all add: valid_params_def scenario_params_def)

lemma scenario_widget: "widget_params (scenario_params 1000000)"
  by (simp add: widget_params_def scenario_params_def)

lemma scenario_init:
  "revenue_usd (scenario_params u) (init_state (scenario_params u)) = 25000"
  "tokens_bought (scenario_params u) (init_state (scenario_params u)) = 50000"
  "\<not> current_supply (init_state (scenario_params u)) < CRITICAL_SUPPLY_THRESHOLD"
  "tokens_burned (scenario_params u) (init_state (scenario_params u)) = 25000"
  "current_mcap (init_state (scenario_params u)) = 50000000"
  "dynamic_depth (scenario_params u) (init_state (scenario_params u)) = 1000000"
  "price_move_pct (scenario_params u) (init_state (scenario_params u)) = 0.025"
  "current_price (init_state (scenario_params u)) = 0.5"
  "current_supply (init_state (scenario_params u)) = 100000000"
  "monthly_new_aum (init_state (scenario_params u)) = 10000000"
  by (simp_all add: body_defs init_state_def scenario_params_def Let_def)

lemma low_supply_valid:
  "valid_params low_supply_params" "- 100 \<le> monthly_growth low_supply_params"
  by (simp_all add: valid_params_def low_supply_params_def)

lemma low_supply_init:
  "current_supply (init_state low_supply_params) = 500000"
  "current_price (init_state low_supply_params) = 0.5"
  "revenue_usd low_supply_params (init_state low_supply_params) = 25000"
  "burn_pct low_supply_params = 50"
  by (simp_all add: body_defs init_state_def low_supply_params_def)

lemma scenario_burn_pct: "burn_pct (scenario_params u) = 50"
  by (simp add: scenario_params_def)

section \<open>The holdings of the observer\<close>

lemma step_user_tokens:
  "step (p\<lparr>user_tokens := u\<rparr>) i s =
     (case step p i s of
        Inl e \<Rightarrow> Inl e
      | Inr (s', r) \<Rightarrow> Inr (s', r\<lparr>Portfolio_Value := real_of_int u * Token_Price r\<rparr>))"
  by (simp add: step_def Let_def body_defs)

lemma sim_loop_user_tokens:
  "sim_loop (p\<lparr>user_tokens := u\<rparr>) is s =
     (case sim_loop p is s of
        Inl e \<Rightarrow> Inl e
      | Inr (sf, rs) \<Rightarrow>
          Inr (sf, map (\<lambda>r. r\<lparr>Portfolio_Value := real_of_int u * Token_Price r\<rparr>) rs))"
  by (induction "is" arbitrary: s) (auto simp: step_user_tokens split: sum.splits prod.splits)

section \<open>The claims\<close>

text \<open>
  Claim C1. With the scenario parameters (10 million of new AUM, growth 1 percent, supply
  100,000,000, fee 25 basis points, burn 50 percent, price 0.50, liquidity depth 500,000)
  and any holdings of the observer that are not negative, the first month computes revenue
  25,000, 50,000 tokens bought, 25,000 tokens burned with the circuit breaker not
  triggered, a market capitalisation of 50,000,000 before the update, a depth of
  1,000,000 and a price move of 0.025; the month ends with price 0.5125 and supply
  99,975,000, and the run returns with these figures in its first row.
\<close>

theorem scenario_first_period:
  assumes "0 \<le> u"
  shows "revenue_usd (scenario_params u) (init_state (scenario_params u)) = 25000 \<and>
    tokens_bought (scenario_params u) (init_state (scenario_params u)) = 50000 \<and>
    \<not> current_supply (init_state (scenario_params u)) < CRITICAL_SUPPLY_THRESHOLD \<and>
    tokens_burned (scenario_params u) (init_state (scenario_params u)) = 25000 \<and>
    current_mcap (init_state (scenario_params u)) = 50000000 \<and>
    dynamic_depth (scenario_params u) (init_state (scenario_params u)) = 1000000 \<and>
    price_move_pct (scenario_params u) (init_state (scenario_params u)) = 0.025 \<and>
    (\<exists>s. state_after (scenario_params u) 1 = Inr s \<and>
         current_price s = 0.5125 \<and> current_supply s = 99975000) \<and>
    (\<exists>rs. run_simulation (scenario_params u) = Inr rs \<and>
         Revenue (rs ! 0) = 25000 \<and> Tokens_Burned (rs ! 0) = 25000 \<and>
         Market_Depth (rs ! 0) = 1000000 \<and> Token_Price (rs ! 0) = 0.5125 \<and>
         Supply (rs ! 0) = 99975000)"
proof -
  let ?p = "scenario_params u"
  from run_months_total [OF scenario_valid(1) [OF assms] scenario_valid(2), of months]
  obtain rs where run: "run_simulation ?p = Inr rs"
    by (auto simp: run_simulation_def)
  from run_first_row [of months ?p rs] run
  obtain s' where st: "step ?p 1 (init_state ?p) = Inr (s', rs ! 0)"
    and sa: "state_after ?p 1 = Inr s'"
    by (auto simp: run_simulation_def months_def)
  have s': "current_price s' = 0.5125" "current_supply s' = 99975000"
    using step_state(3,4) [OF st] by (simp_all add: scenario_init)
  have row: "Revenue (rs ! 0) = 25000" "Tokens_Burned (rs ! 0) = 25000"
    "Market_Depth (rs ! 0) = 1000000" "Token_Price (rs ! 0) = 0.5125"
    "Supply (rs ! 0) = 99975000"
    using step_row [OF st] s' by (simp_all add: scenario_init)
  have here: "\<exists>s. state_after ?p 1 = Inr s \<and> current_price s = 0.5125 \<and>
      current_supply s = 99975000"
    using sa s' by blast
  have rows: "\<exists>rs. run_simulation ?p = Inr rs \<and>
         Revenue (rs ! 0) = 25000 \<and> Tokens_Burned (rs ! 0) = 25000 \<and>
         Market_Depth (rs ! 0) = 1000000 \<and> Token_Price (rs ! 0) = 0.5125 \<and>
         Supply (rs ! 0) = 99975000"
    using run row by blast
  show ?thesis
    using scenario_init(1-7) [of u] here rows by blast
qed

theorem scenario_first_period_witness:
  "(0::int) \<le> 1000000 \<and>
   revenue_usd (scenario_params 1000000) (init_state (scenario_params 1000000)) = 25000 \<and>
   (\<exists>s. state_after (scenario_params 1000000) 1 = Inr s \<and>
         current_price s = 0.5125 \<and> current_supply s = 99975000) \<and>
   (\<exists>rs. run_simulation (scenario_params 1000000) = Inr rs \<and>
         Token_Price (rs ! 0) = 0.5125 \<and> Supply (rs ! 0) = 99975000)"
proof -
  have h: "(0::int) \<le> 1000000"
    by simp
  from scenario_first_period [OF h] h show ?thesis
    by blast
qed

text \<open>
  Claim C2. In every month of a run that starts with a supply strictly below 1,000,000
  tokens, the recorded tokens burned are the unthrottled burn (revenue divided by the
  price, times the burn percentage over 100) times the supply over 1,000,000 times 0.01;
  in every month that starts with a supply of at least 1,000,000 they are the unthrottled
  burn unchanged. Row \<open>k\<close> is the row of month \<open>k + 1\<close>, which starts from the state at the
  end of month \<open>k\<close>.
\<close>

theorem circuit_breaker_burn:
  assumes "run_simulation p = Inr rs" and "k < length rs"
  shows "\<exists>s. state_after p (int k) = Inr s \<and>
     Revenue (rs ! k) = revenue_usd p s \<and>
     (current_supply s < 1000000 \<longrightarrow>
        Tokens_Burned (rs ! k) =
          revenue_usd p s / current_price s * real_of_int (burn_pct p) / 100 *
          (current_supply s / 1000000) * 0.01) \<and>
     (1000000 \<le> current_supply s \<longrightarrow>
        Tokens_Burned (rs ! k) =
          revenue_usd p s / current_price s * real_of_int (burn_pct p) / 100)"
proof -
  from run_months_period [of months p rs k] assms
  obtain s s' where sa: "state_after p (int k) = Inr s"
    and st: "step p (int k + 1) s = Inr (s', rs ! k)"
    by (auto simp: run_simulation_def)
  have rev: "Revenue (rs ! k) = revenue_usd p s"
    and bur: "Tokens_Burned (rs ! k) = tokens_burned p s"
    using step_row [OF st] by simp_all
  have lo: "tokens_burned p s =
      revenue_usd p s / current_price s * real_of_int (burn_pct p) / 100 *
      (current_supply s / 1000000) * 0.01" if "current_supply s < 1000000"
    using that
    by (simp add: tokens_burned_def tokens_bought_def supply_factor_def
        CRITICAL_SUPPLY_THRESHOLD_def Let_def)
  have hi: "tokens_burned p s =
      revenue_usd p s / current_price s * real_of_int (burn_pct p) / 100"
    if "1000000 \<le> current_supply s"
    using that
    by (simp add: tokens_burned_def tokens_bought_def CRITICAL_SUPPLY_THRESHOLD_def Let_def)
  show ?thesis
    using sa rev bur lo hi by auto
qed

theorem circuit_breaker_burn_witness:
  "(\<exists>rs. run_simulation low_supply_params = Inr rs \<and> 0 < length rs \<and>
         Tokens_Burned (rs ! 0) = 125) \<and>
   (\<exists>rs. run_simulation (scenario_params 1000000) = Inr rs \<and> 0 < length rs \<and>
         Tokens_Burned (rs ! 0) = 25000)"
proof -
  from run_months_total [OF low_supply_valid, of months]
  obtain rs where run: "run_simulation low_supply_params = Inr rs"
    by (auto simp: run_simulation_def)
  have len: "0 < length rs"
    using run_months_length(1) [of months low_supply_params rs] run
    by (simp add: run_simulation_def months_def)
  from circuit_breaker_burn [OF run len]
  have "current_supply (init_state low_supply_params) < 1000000 \<longrightarrow>
      Tokens_Burned (rs ! 0) =
        revenue_usd low_supply_params (init_state low_supply_params) /
        current_price (init_state low_supply_params) *
        real_of_int (burn_pct low_supply_params) / 100 *
        (current_supply (init_state low_supply_params) / 1000000) * 0.01"
    by (auto simp: state_after_0)
  then have a: "Tokens_Burned (rs ! 0) = 125"
    by (simp add: low_supply_init)
  from run_months_total [OF scenario_valid, of 1000000 months]
  obtain rs' where run': "run_simulation (scenario_params 1000000) = Inr rs'"
    by (auto simp: run_simulation_def)
  have len': "0 < length rs'"
    using run_months_length(1) [of months "scenario_params 1000000" rs'] run'
    by (simp add: run_simulation_def months_def)
  from circuit_breaker_burn [OF run' len']
  have "1000000 \<le> current_supply (init_state (scenario_params 1000000)) \<longrightarrow>
      Tokens_Burned (rs' ! 0) =
        revenue_usd (scenario_params 1000000) (init_state (scenario_params 1000000)) /
        current_price (init_state (scenario_params 1000000)) *
        real_of_int (burn_pct (scenario_params 1000000)) / 100"
    by (auto simp: state_after_0)
  then have b: "Tokens_Burned (rs' ! 0) = 25000"
    by (simp add: scenario_init scenario_burn_pct)
  show ?thesis
    using run len a run' len' b by blast
qed

text \<open>
  Claim C3. The claim reads: in every row, the revenue is the new-AUM column times the
  fee rate. The code writes the row after it has advanced \<open>monthly_new_aum\<close> for the next
  month, so the column holds next month's inflow. With the widget defaults the row of
  month 1 has revenue 25,000 and new AUM 10,100,000, whose fee would be 25,250.
\<close>

theorem new_aum_column_differs:
  "\<exists>rs. run_simulation (scenario_params 1000000) = Inr rs \<and>
     Revenue (rs ! 0) = 25000 \<and> New_AUM (rs ! 0) = 10100000 \<and>
     New_AUM (rs ! 0) * fee_rate (scenario_params 1000000) = 25250 \<and>
     Revenue (rs ! 0) \<noteq> New_AUM (rs ! 0) * fee_rate (scenario_params 1000000)"
proof -
  let ?p = "scenario_params 1000000"
  from run_months_total [OF scenario_valid(1) scenario_valid(2), of 1000000 months]
  obtain rs where run: "run_simulation ?p = Inr rs"
    by (auto simp: run_simulation_def)
  from run_first_row [of months ?p rs] run
  obtain s' where st: "step ?p 1 (init_state ?p) = Inr (s', rs ! 0)"
    by (auto simp: run_simulation_def months_def)
  have row: "Revenue (rs ! 0) = 25000" "New_AUM (rs ! 0) = 10100000"
    using step_row(3,4) [OF st] step_state(2) [OF st]
    by (simp_all add: scenario_init) (simp add: scenario_params_def)
  have fee: "fee_rate ?p = 0.0025"
    by (simp add: fee_rate_def scenario_params_def)
  show ?thesis
    using run row fee by simp
qed

text \<open>
  Claim C5. In every row the total token value is the recorded supply times the recorded
  price and the portfolio value is the holdings of the observer times the recorded price;
  the recorded supply and price are those of the state at the end of that month.
\<close>

theorem rows_consistent:
  assumes "run_simulation p = Inr rs" and "k < length rs"
  shows "TTV (rs ! k) = Supply (rs ! k) * Token_Price (rs ! k) \<and>
     Portfolio_Value (rs ! k) = real_of_int (user_tokens p) * Token_Price (rs ! k) \<and>
     (\<exists>s'. state_after p (int k + 1) = Inr s' \<and>
          Supply (rs ! k) = current_supply s' \<and> Token_Price (rs ! k) = current_price s')"
proof -
  from run_months_period [of months p rs k] assms
  obtain s s' where st: "step p (int k + 1) s = Inr (s', rs ! k)"
    and sa: "state_after p (int k + 1) = Inr s'"
    by (auto simp: run_simulation_def)
  show ?thesis
    using step_row [OF st] sa by simp
qed

theorem rows_consistent_witness:
  "\<exists>rs. run_simulation (scenario_params 1000000) = Inr rs \<and> 0 < length rs \<and>
     TTV (rs ! 0) = Supply (rs ! 0) * Token_Price (rs ! 0) \<and>
     Portfolio_Value (rs ! 0) = 1000000 * Token_Price (rs ! 0)"
proof -
  from run_months_total [OF scenario_valid, of 1000000 months]
  obtain rs where run: "run_simulation (scenario_params 1000000) = Inr rs"
    by (auto simp: run_simulation_def)
  have len: "0 < length rs"
    using run_months_length(1) [of months "scenario_params 1000000" rs] run
    by (simp add: run_simulation_def months_def)
  from rows_consistent [OF run len]
  have "TTV (rs ! 0) = Supply (rs ! 0) * Token_Price (rs ! 0)"
    and "Portfolio_Value (rs ! 0) = 1000000 * Token_Price (rs ! 0)"
    by (simp_all add: scenario_params_def)
  then show ?thesis
    using run len by blast
qed

text \<open>
  Claim C6. For every parameter set that satisfies the constraints of section 3 and that
  the widgets of the program can deliver, a run over \<open>n\<close> months returns exactly \<open>n\<close> rows
  whose month numbers are 1 to \<open>n\<close> in ascending order without gaps; the run of the
  program, whose horizon is fixed at 24 months, returns rows 1 to 24.
\<close>

theorem run_length_months:
  assumes "valid_params p" and "widget_params p"
  shows "(\<exists>rs. run_months n p = Inr rs \<and> length rs = nat n \<and> map Month rs = [1..n]) \<and>
     (\<exists>rs. run_simulation p = Inr rs \<and> length rs = 24 \<and> map Month rs = [1..24])"
proof -
  have g: "- 100 \<le> monthly_growth p"
    using assms(2) by (simp add: widget_params_def)
  have gen: "\<exists>rs. run_months m p = Inr rs \<and> length rs = nat m \<and> map Month rs = [1..m]" for m
  proof -
    from run_months_total [OF assms(1) g, of m]
    obtain rs where run: "run_months m p = Inr rs"
      by blast
    from run run_months_length [OF run] show ?thesis
      by blast
  qed
  from gen [of months] have "\<exists>rs. run_simulation p = Inr rs \<and> length rs = 24 \<and>
      map Month rs = [1..24]"
    by (simp add: run_simulation_def months_def)
  with gen [of n] show ?thesis
    by blast
qed

theorem run_length_months_witness:
  "valid_params (scenario_params 1000000) \<and>
   widget_params (scenario_params 1000000) \<and>
   (\<exists>rs. run_simulation (scenario_params 1000000) = Inr rs \<and> length rs = 24 \<and>
      map Month rs = [1, 2, 3, 4, 5, 6, 7, 8, 9, 10, 11, 12, 13, 14, 15, 16, 17, 18, 19,
        20, 21, 22, 23, 24])"
proof -
  have v: "valid_params (scenario_params 1000000)"
    by (rule scenario_valid(1)) simp
  from run_length_months [OF v scenario_widget, of 24] v scenario_widget show ?thesis
    by (simp add: months_upto)
qed

text \<open>
  Claim C7. When the growth rate is not negative and the seed of new AUM is positive, the
  cumulative AUM recorded by a run strictly increases from each row to the next.
\<close>

theorem total_aum_increasing:
  assumes "0 \<le> monthly_growth p" and "0 < initial_aum p"
    and "run_simulation p = Inr rs" and "Suc k < length rs"
  shows "Total_AUM (rs ! k) < Total_AUM (rs ! Suc k)"
proof -
  from assms(3) obtain sf where lp: "sim_loop p [1..months] (init_state p) = Inr (sf, rs)"
    unfolding run_simulation_def by (rule run_months_Inr)
  have seed: "0 < monthly_new_aum (init_state p)"
    using assms(2) by (simp add: init_state_def)
  from sim_loop_aum [OF assms(1) seed lp]
  have "sorted_wrt (\<lambda>a b. Total_AUM a < Total_AUM b) rs"
    by simp
  from sorted_wrt_nth_less [OF this, of k "Suc k"] assms(4) show ?thesis
    by simp
qed

theorem total_aum_increasing_witness:
  "\<exists>rs. run_simulation (scenario_params 1000000) = Inr rs \<and> Suc 0 < length rs \<and>
     Total_AUM (rs ! 0) < Total_AUM (rs ! Suc 0)"
proof -
  from run_months_total [OF scenario_valid, of 1000000 months]
  obtain rs where run: "run_simulation (scenario_params 1000000) = Inr rs"
    by (auto simp: run_simulation_def)
  have len: "Suc 0 < length rs"
    using run_months_length(1) [of months "scenario_params 1000000" rs] run
    by (simp add: run_simulation_def months_def)
  have g: "0 \<le> monthly_growth (scenario_params 1000000)"
    and a: "0 < initial_aum (scenario_params 1000000)"
    by (simp_all add: scenario_params_def)
  from total_aum_increasing [OF g a run len] run len show ?thesis
    by blast
qed

text \<open>
  Claim C10. Two runs whose parameters differ only in the holdings of the observer either
  raise the same error or return rows that agree in every column but the portfolio value.
\<close>

theorem observer_holdings_no_influence:
  "map_sum id (map drop_portfolio) (run_simulation (p\<lparr>user_tokens := u\<rparr>)) =
   map_sum id (map drop_portfolio) (run_simulation p)"
proof -
  have ini: "init_state (p\<lparr>user_tokens := u\<rparr>) = init_state p"
    by (simp add: init_state_def)
  show ?thesis
    unfolding run_simulation_def run_months_def ini sim_loop_user_tokens
    by (auto simp: drop_portfolio_def split: sum.splits prod.splits)
qed

end
